theory Spec2Isabelle
  imports Complex_Main "HOL-Library.AList"
begin

section \<open>Values\<close>

subsection \<open>Request bodies: parsed JSON\<close>

text \<open>
  The body of a request is what \<^verbatim>\<open>request.json\<close> hands to the handler: \<^verbatim>\<open>None\<close>, a
  \<^verbatim>\<open>bool\<close>, an \<^verbatim>\<open>int\<close>, a \<^verbatim>\<open>float\<close>, a \<^verbatim>\<open>str\<close>, a \<^verbatim>\<open>list\<close> or a \<^verbatim>\<open>dict\<close> with
  string keys. A dict is an association list in insertion order; a Python dict never
  holds a key twice. Floats are read as real numbers: rounding, infinities and NaN
  are not modelled. A \<^verbatim>\<open>str\<close> is the list of the bytes of its UTF-8 encoding.
\<close>

datatype json =
    JNull
  | JBool bool
  | JInt int
  | JFloat real
  | JStr string
  | JList "json list"
  | JDict "(string \<times> json) list"

text \<open>Python truthiness (\<^verbatim>\<open>if x\<close>, \<^verbatim>\<open>not x\<close>) of a parsed JSON value.\<close>

fun truthy :: "json \<Rightarrow> bool" where
  "truthy JNull = False"
| "truthy (JBool b) = b"
| "truthy (JInt n) = (n \<noteq> 0)"
| "truthy (JFloat x) = (x \<noteq> 0)"
| "truthy (JStr s) = (s \<noteq> [])"
| "truthy (JList xs) = (xs \<noteq> [])"
| "truthy (JDict kvs) = (kvs \<noteq> [])"

fun is_str :: "json \<Rightarrow> bool" where
  "is_str (JStr s) = True"
| "is_str _ = False"

text \<open>\<^verbatim>\<open>d.get(k, default)\<close> and \<^verbatim>\<open>d.get(k)\<close> (whose default is \<^verbatim>\<open>None\<close>).\<close>

definition get_default :: "(string \<times> json) list \<Rightarrow> string \<Rightarrow> json \<Rightarrow> json" where
  "get_default kvs k d = (case map_of kvs k of None \<Rightarrow> d | Some v \<Rightarrow> v)"

definition get :: "(string \<times> json) list \<Rightarrow> string \<Rightarrow> json" where
  "get kvs k = get_default kvs k JNull"

text \<open>
  The exceptions of the handler. Those raised by the interpreter carry no message in
  the model; an exception of the client library is known by its text \<^verbatim>\<open>str(e)\<close>.
\<close>

datatype pyexc = AttributeError | TypeError | ValueError | ClientError string

text \<open>The lower case of an ASCII letter; any other byte is left as it is.\<close>

definition lower_char :: "char \<Rightarrow> char" where
  "lower_char c =
     (let n = (of_char c :: nat) in if 65 \<le> n \<and> n \<le> 90 then char_of (n + 32) else c)"

text \<open>
  \<^verbatim>\<open>s.lower()\<close>, as far as the handler looks at it: the result is only compared with
  ASCII words. The letters A to Z become a to z, and the Kelvin sign U+212A (the
  bytes E2 84 AA) becomes \<^verbatim>\<open>k\<close>: it is the one character outside ASCII whose lower case
  is an ASCII text. Every other character outside ASCII has a lower case outside
  ASCII; its bytes are left as they are, which are outside ASCII too.
\<close>

fun lower :: "string \<Rightarrow> string" where
  "lower (a # b # c # s) =
     (if a = CHR 0xE2 \<and> b = CHR 0x84 \<and> c = CHR 0xAA then CHR ''k'' # lower s
      else lower_char a # lower (b # c # s))"
| "lower (a # s) = lower_char a # lower s"
| "lower [] = []"

text \<open>
  The method call \<^verbatim>\<open>x.lower()\<close> on a parsed JSON value: only a \<^verbatim>\<open>str\<close> has the
  method, every other value raises \<^verbatim>\<open>AttributeError\<close>.
\<close>

fun call_lower :: "json \<Rightarrow> pyexc + string" where
  "call_lower (JStr s) = Inr (lower s)"
| "call_lower _ = Inl AttributeError"

section \<open>The predicates of the client library\<close>

text \<open>
  The predicates of the client library are opaque values:
  \<^verbatim>\<open>wq.Filter.by_property(field).equal(value)\<close> is \<open>By_property field Equal value\<close>,
  \<^verbatim>\<open>wq.Filter.all_of(cs)\<close> is \<open>All_of cs\<close> and \<^verbatim>\<open>wq.Filter.any_of(cs)\<close> is \<open>Any_of cs\<close>.
\<close>

datatype comparison =
  Equal | Not_equal | Greater_than | Greater_or_equal | Less_than | Less_or_equal | Like

datatype wfilter =
    By_property json comparison json
  | All_of "wfilter list"
  | Any_of "wfilter list"

definition supported_ops :: "string list" where
  "supported_ops = [''eq'', ''neq'', ''gt'', ''gte'', ''lt'', ''lte'', ''like'']"

section \<open>Values of the backend and their serialisation\<close>

text \<open>
  A property value returned by the client library is a Python object. The builtin
  kinds are constructors of their own; a \<^verbatim>\<open>datetime\<close> is known by the text its
  \<^verbatim>\<open>isoformat()\<close> returns and a \<^verbatim>\<open>UUID\<close> by the text \<^verbatim>\<open>str\<close> returns. \<open>PObject\<close>
  is an instance of any other class with its attributes: of a class of its own
  (no base, as the library's \<^verbatim>\<open>GeoCoordinate\<close>) or of a subclass of a builtin kind,
  whose value it extends. \<^verbatim>\<open>isinstance\<close> looks at the base, \<^verbatim>\<open>hasattr\<close> at the
  attributes.
\<close>

datatype pyval =
    PNone
  | PBool bool
  | PInt int
  | PFloat real
  | PStr string
  | PDatetime string
  | PUUID string
  | PList "pyval list"
  | PDict "(string \<times> pyval) list"
  | PObject "pyval option" "(string \<times> pyval) list"

fun is_datetime :: "pyval \<Rightarrow> bool" where
  "is_datetime (PDatetime s) = True"
| "is_datetime (PObject (Some base) attrs) = is_datetime base"
| "is_datetime _ = False"

fun isoformat :: "pyval \<Rightarrow> string" where
  "isoformat (PDatetime s) = s"
| "isoformat (PObject (Some base) attrs) = isoformat base"
| "isoformat _ = []"

fun is_uuid :: "pyval \<Rightarrow> bool" where
  "is_uuid (PUUID s) = True"
| "is_uuid (PObject (Some base) attrs) = is_uuid base"
| "is_uuid _ = False"

fun str_uuid :: "pyval \<Rightarrow> string" where
  "str_uuid (PUUID s) = s"
| "str_uuid (PObject (Some base) attrs) = str_uuid base"
| "str_uuid _ = []"

fun is_list :: "pyval \<Rightarrow> bool" where
  "is_list (PList xs) = True"
| "is_list (PObject (Some base) attrs) = is_list base"
| "is_list _ = False"

fun list_items :: "pyval \<Rightarrow> pyval list" where
  "list_items (PList xs) = xs"
| "list_items (PObject (Some base) attrs) = list_items base"
| "list_items _ = []"

fun is_dict :: "pyval \<Rightarrow> bool" where
  "is_dict (PDict kvs) = True"
| "is_dict (PObject (Some base) attrs) = is_dict base"
| "is_dict _ = False"

fun dict_items :: "pyval \<Rightarrow> (string \<times> pyval) list" where
  "dict_items (PDict kvs) = kvs"
| "dict_items (PObject (Some base) attrs) = dict_items base"
| "dict_items _ = []"

fun getattr :: "pyval \<Rightarrow> string \<Rightarrow> pyval option" where
  "getattr (PObject base attrs) name =
     (case map_of attrs name of
        Some v \<Rightarrow> Some v
      | None \<Rightarrow> (case base of None \<Rightarrow> None | Some b \<Rightarrow> getattr b name))"
| "getattr _ name = None"

definition hasattr :: "pyval \<Rightarrow> string \<Rightarrow> bool" where
  "hasattr v name = (getattr v name \<noteq> None)"

lemma size_list_items: "x \<in> set (list_items v) \<Longrightarrow> size x < size v"
  by (induction v rule: list_items.induct)
     (auto simp: less_Suc_eq_le dest: size_list_estimation')

lemma size_dict_items: "(k, x) \<in> set (dict_items v) \<Longrightarrow> size x < size v"
proof (induction v rule: dict_items.induct)
  case (1 kvs)
  then have "(k, x) \<in> set kvs" by simp
  then have "size_prod (\<lambda>_. 0) size (k, x) \<le> size_list (size_prod (\<lambda>_. 0) size) kvs"
    by (rule size_list_estimation') simp
  then show ?case by simp
qed auto

text \<open>\<^verbatim>\<open>process_single_value\<close>, branch by branch as the source tests them.\<close>

function process_single_value :: "pyval \<Rightarrow> pyval" where
  "process_single_value v =
     (if is_datetime v then PStr (isoformat v)
      else if is_uuid v then PStr (str_uuid v)
      else if hasattr v ''latitude'' \<and> hasattr v ''longitude''
      then PDict [(''latitude'', the (getattr v ''latitude'')),
                  (''longitude'', the (getattr v ''longitude''))]
      else if is_list v then PList (map process_single_value (list_items v))
      else if is_dict v
      then PDict (map (\<lambda>(k, x). (k, process_single_value x)) (dict_items v))
      else v)"
  by pat_completeness auto
termination
  by (relation "measure size") (auto simp: size_list_items size_dict_items)

declare process_single_value.simps [simp del]

text \<open>
  \<^verbatim>\<open>process_properties\<close>: the loop over \<^verbatim>\<open>properties.items()\<close> with the dict
  \<^verbatim>\<open>processed\<close> as accumulator; \<^verbatim>\<open>processed[key] = x\<close> is \<open>AList.update key x\<close>.
\<close>

fun process_properties_loop ::
  "(string \<times> pyval) list \<Rightarrow> (string \<times> pyval) list \<Rightarrow> (string \<times> pyval) list" where
  "process_properties_loop [] processed = processed"
| "process_properties_loop ((key, v) # rest) processed =
     (if is_datetime v
      then process_properties_loop rest (AList.update key (PStr (isoformat v)) processed)
      else if is_uuid v
      then process_properties_loop rest (AList.update key (PStr (str_uuid v)) processed)
      else if hasattr v ''latitude'' \<and> hasattr v ''longitude''
      then process_properties_loop rest
             (AList.update key
                (PDict [(''latitude'', the (getattr v ''latitude'')),
                        (''longitude'', the (getattr v ''longitude''))])
                processed)
      else if is_list v \<or> is_dict v
      then (if is_list v
            then process_properties_loop rest
                   (AList.update key (PList (map process_single_value (list_items v))) processed)
            else process_properties_loop rest
                   (AList.update key
                      (PDict (map (\<lambda>(k, x). (k, process_single_value x)) (dict_items v)))
                      processed))
      else process_properties_loop rest (AList.update key v processed))"

definition process_properties :: "(string \<times> pyval) list \<Rightarrow> (string \<times> pyval) list" where
  "process_properties properties =
     (if properties = [] then [] else process_properties_loop properties [])"

text \<open>
  The values the backend holds, for the normaliser: wherever it meets a value with
  \<^verbatim>\<open>latitude\<close> and \<^verbatim>\<open>longitude\<close>, the two are JSON scalars (the library's
  \<^verbatim>\<open>GeoCoordinate\<close> holds two floats).
\<close>

fun json_scalar :: "pyval \<Rightarrow> bool" where
  "json_scalar PNone = True"
| "json_scalar (PBool b) = True"
| "json_scalar (PInt n) = True"
| "json_scalar (PFloat x) = True"
| "json_scalar (PStr s) = True"
| "json_scalar _ = False"

function backend_value :: "pyval \<Rightarrow> bool" where
  "backend_value v =
     (if is_datetime v then True
      else if is_uuid v then True
      else if hasattr v ''latitude'' \<and> hasattr v ''longitude''
      then json_scalar (the (getattr v ''latitude'')) \<and>
           json_scalar (the (getattr v ''longitude''))
      else if is_list v then list_all backend_value (list_items v)
      else if is_dict v then list_all (\<lambda>(k, x). backend_value x) (dict_items v)
      else True)"
  by pat_completeness auto
termination
  by (relation "measure size") (auto simp: size_list_items size_dict_items)

declare backend_value.simps [simp del]

section \<open>What the handler calls and the source does not define\<close>

text \<open>
  A row of the search response: \<^verbatim>\<open>obj.properties\<close>, \<^verbatim>\<open>obj.metadata\<close> (which may be
  \<^verbatim>\<open>None\<close>) with its \<^verbatim>\<open>distance\<close> (which may be \<^verbatim>\<open>None\<close>), and \<^verbatim>\<open>obj.uuid\<close>, known by
  the text \<^verbatim>\<open>str\<close> returns.
\<close>

record metadata_return =
  distance :: "real option"

record robject =
  properties :: "(string \<times> pyval) list"
  metadata :: "metadata_return option"
  uuid :: string

text \<open>
  The client library and the interpreter's \<^verbatim>\<open>int\<close> on text are parameters of the
  model; where a call may raise, \<open>Some msg\<close> or \<open>Inl msg\<close> is the exception raised,
  known by its text.
  \<^item> \<open>collections_get c name\<close> is \<^verbatim>\<open>client.collections.get(name)\<close>: \<open>None\<close> when it
    returns the collection.
  \<^item> \<open>near_text c name query limit filters\<close> is \<^verbatim>\<open>collection.query.near_text(...)\<close>
    on that collection: the rows of the response when it returns.
  \<^item> \<open>by_property c field\<close> is \<^verbatim>\<open>wq.Filter.by_property(field)\<close>: \<open>None\<close> when it returns
    the property filter.
  \<^item> \<open>comparison_method c field op v\<close> is the call of \<^verbatim>\<open>equal\<close>, \<^verbatim>\<open>not_equal\<close>,
    \<^verbatim>\<open>greater_than\<close>, \<^verbatim>\<open>greater_or_equal\<close>, \<^verbatim>\<open>less_than\<close>, \<^verbatim>\<open>less_or_equal\<close> or \<^verbatim>\<open>like\<close>
    on that property filter with \<open>v\<close>: \<open>None\<close> when it returns the comparison.
  \<^item> \<open>int_of_text c s\<close> is \<^verbatim>\<open>int(s)\<close> on a \<^verbatim>\<open>str\<close>: \<open>None\<close> when it raises
    \<^verbatim>\<open>ValueError\<close>.
\<close>

record environment =
  collections_get :: "json \<Rightarrow> string option"
  near_text :: "json \<Rightarrow> json \<Rightarrow> int \<Rightarrow> wfilter option \<Rightarrow> string + robject list"
  by_property :: "json \<Rightarrow> string option"
  comparison_method :: "json \<Rightarrow> comparison \<Rightarrow> json \<Rightarrow> string option"
  int_of_text :: "string \<Rightarrow> int option"

section \<open>The filter built for the search\<close>

text \<open>
  \<^verbatim>\<open>prop_filter.equal(value)\<close> and its siblings, on the property filter of \<open>field\<close>:
  the comparison to append, or the exception of the library.
\<close>

definition comparison_of :: "environment \<Rightarrow> json \<Rightarrow> comparison \<Rightarrow> json \<Rightarrow> pyexc + wfilter" where
  "comparison_of c field op v =
     (case comparison_method c field op v of
        Some msg \<Rightarrow> Inl (ClientError msg)
      | None \<Rightarrow> Inr (By_property field op v))"

text \<open>
  The loop over \<^verbatim>\<open>conditions_input\<close>, with \<^verbatim>\<open>filter_conditions\<close> as accumulator.
  \<^verbatim>\<open>cond.get\<close> exists only on a dict; on any other entry the call raises
  \<^verbatim>\<open>AttributeError\<close>. An exception ends the loop.
\<close>

fun filter_conditions_loop ::
  "environment \<Rightarrow> json list \<Rightarrow> wfilter list \<Rightarrow> pyexc + wfilter list" where
  "filter_conditions_loop c [] filter_conditions = Inr filter_conditions"
| "filter_conditions_loop c (cond # rest) filter_conditions =
     (case cond of
        JDict kvs \<Rightarrow>
          (let field = get kvs ''field'' in
           case call_lower (get_default kvs ''operator'' (JStr [])) of
             Inl exc \<Rightarrow> Inl exc
           | Inr op \<Rightarrow>
               (let value = get kvs ''value'' in
                if \<not> truthy field \<or> op \<notin> set supported_ops \<or> value = JNull
                then filter_conditions_loop c rest filter_conditions
                else case by_property c field of
                  Some msg \<Rightarrow> Inl (ClientError msg)
                | None \<Rightarrow>
                    if op = ''eq''
                    then (case comparison_of c field Equal value of
                            Inl exc \<Rightarrow> Inl exc
                          | Inr w \<Rightarrow> filter_conditions_loop c rest (filter_conditions @ [w]))
                    else if op = ''neq''
                    then (case comparison_of c field Not_equal value of
                            Inl exc \<Rightarrow> Inl exc
                          | Inr w \<Rightarrow> filter_conditions_loop c rest (filter_conditions @ [w]))
                    else if op = ''gt''
                    then (case comparison_of c field Greater_than value of
                            Inl exc \<Rightarrow> Inl exc
                          | Inr w \<Rightarrow> filter_conditions_loop c rest (filter_conditions @ [w]))
                    else if op = ''gte''
                    then (case comparison_of c field Greater_or_equal value of
                            Inl exc \<Rightarrow> Inl exc
                          | Inr w \<Rightarrow> filter_conditions_loop c rest (filter_conditions @ [w]))
                    else if op = ''lt''
                    then (case comparison_of c field Less_than value of
                            Inl exc \<Rightarrow> Inl exc
                          | Inr w \<Rightarrow> filter_conditions_loop c rest (filter_conditions @ [w]))
                    else if op = ''lte''
                    then (case comparison_of c field Less_or_equal value of
                            Inl exc \<Rightarrow> Inl exc
                          | Inr w \<Rightarrow> filter_conditions_loop c rest (filter_conditions @ [w]))
                    else if op = ''like''
                    then (if is_str value
                          then (case comparison_of c field Like value of
                                  Inl exc \<Rightarrow> Inl exc
                                | Inr w \<Rightarrow>
                                    filter_conditions_loop c rest (filter_conditions @ [w]))
                          else filter_conditions_loop c rest filter_conditions)
                    else filter_conditions_loop c rest filter_conditions))
      | _ \<Rightarrow> Inl AttributeError)"

text \<open>
  The block \<^verbatim>\<open>Build Weaviate Filter\<close> of \<^verbatim>\<open>query_collection\<close>: from
  \<^verbatim>\<open>filters_input = data.get("filters")\<close> to the value of \<^verbatim>\<open>weaviate_filter\<close>
  (\<open>None\<close> is Python's \<^verbatim>\<open>None\<close>: the search runs unfiltered).
\<close>

definition weaviate_filter :: "environment \<Rightarrow> json \<Rightarrow> pyexc + wfilter option" where
  "weaviate_filter c filters_input =
     (case filters_input of
        JDict kvs \<Rightarrow>
          if kvs \<noteq> [] then
            (let conditions_input = get_default kvs ''conditions'' (JList []) in
             case call_lower (get_default kvs ''operator'' (JStr ''And'')) of
               Inl exc \<Rightarrow> Inl exc
             | Inr operator_type \<Rightarrow>
                 (case conditions_input of
                    JList conds \<Rightarrow>
                      if conds \<noteq> [] then
                        (case filter_conditions_loop c conds [] of
                           Inl exc \<Rightarrow> Inl exc
                         | Inr filter_conditions \<Rightarrow>
                             if filter_conditions \<noteq> [] then
                               (if operator_type = ''or''
                                then Inr (Some (Any_of filter_conditions))
                                else Inr (Some (All_of filter_conditions)))
                             else Inr None)
                      else Inr None
                  | _ \<Rightarrow> Inr None))
          else Inr None
      | _ \<Rightarrow> Inr None)"

section \<open>The filter compiler of the specification\<close>

text \<open>
  The compiler as the specification words it (section 4.2), to be compared with
  \<open>weaviate_filter\<close>. A condition is an object. It is valid when its \<^verbatim>\<open>field\<close> is
  non-empty, its \<^verbatim>\<open>operator\<close> is one of the supported operators without regard to
  case, its \<^verbatim>\<open>value\<close> is present and not null, and, for \<^verbatim>\<open>like\<close>, the value is a
  string.
\<close>

definition spec_operator :: "(string \<times> json) list \<Rightarrow> string" where
  "spec_operator kvs = (case map_of kvs ''operator'' of Some (JStr s) \<Rightarrow> lower s | _ \<Rightarrow> [])"

fun spec_valid :: "json \<Rightarrow> bool" where
  "spec_valid (JDict kvs) =
     (truthy (get kvs ''field'') \<and> spec_operator kvs \<in> set supported_ops \<and>
      get kvs ''value'' \<noteq> JNull \<and>
      (spec_operator kvs = ''like'' \<longrightarrow> is_str (get kvs ''value'')))"
| "spec_valid _ = False"

text \<open>The operator table of the specification.\<close>

definition spec_table :: "string \<Rightarrow> comparison" where
  "spec_table op =
     (if op = ''eq'' then Equal
      else if op = ''neq'' then Not_equal
      else if op = ''gt'' then Greater_than
      else if op = ''gte'' then Greater_or_equal
      else if op = ''lt'' then Less_than
      else if op = ''lte'' then Less_or_equal
      else Like)"

fun spec_comparison :: "json \<Rightarrow> wfilter" where
  "spec_comparison (JDict kvs) =
     By_property (get kvs ''field'') (spec_table (spec_operator kvs)) (get kvs ''value'')"
| "spec_comparison c = By_property JNull Equal c"

text \<open>
  The conditions the compiler walks through: the \<^verbatim>\<open>conditions\<close> entry of a
  specification that is an object, when that entry is a list.
\<close>

fun conditions_of :: "json \<Rightarrow> json list" where
  "conditions_of (JDict kvs) =
     (case get_default kvs ''conditions'' (JList []) of JList conds \<Rightarrow> conds | _ \<Rightarrow> [])"
| "conditions_of _ = []"

text \<open>
  The combinator named by the specification's \<^verbatim>\<open>operator\<close>: OR when it reads
  \<^verbatim>\<open>or\<close> in any case, AND for every other text and when it is absent.
\<close>

fun spec_combinator :: "json \<Rightarrow> wfilter list \<Rightarrow> wfilter" where
  "spec_combinator (JDict kvs) = (if spec_operator kvs = ''or'' then Any_of else All_of)"
| "spec_combinator _ = All_of"

text \<open>
  The shape of a filter specification on which the source's compiler raises nothing
  of its own: an \<^verbatim>\<open>operator\<close> that is present, of the specification or of a
  condition, is text, and every condition is an object.
\<close>

definition operator_textual :: "(string \<times> json) list \<Rightarrow> bool" where
  "operator_textual kvs = (case map_of kvs ''operator'' of None \<Rightarrow> True | Some v \<Rightarrow> is_str v)"

fun condition_shaped :: "json \<Rightarrow> bool" where
  "condition_shaped (JDict kvs) = operator_textual kvs"
| "condition_shaped _ = False"

fun filter_spec :: "json \<Rightarrow> bool" where
  "filter_spec (JDict kvs) =
     (operator_textual kvs \<and> list_all condition_shaped (conditions_of (JDict kvs)))"
| "filter_spec _ = True"

text \<open>
  The conditions the specification calls invalid: an unsupported operator, a missing or empty
  field, a null or absent value, and a \<^verbatim>\<open>like\<close> whose value is not a string.
\<close>

fun invalid_condition :: "json \<Rightarrow> bool" where
  "invalid_condition (JDict kvs) =
     (spec_operator kvs \<notin> set supported_ops \<or>
      get kvs ''field'' = JNull \<or> get kvs ''field'' = JStr [] \<or>
      get kvs ''value'' = JNull \<or>
      (spec_operator kvs = ''like'' \<and> \<not> is_str (get kvs ''value'')))"
| "invalid_condition _ = False"

text \<open>The specification with its list of conditions replaced.\<close>

fun with_conditions :: "json \<Rightarrow> json list \<Rightarrow> json" where
  "with_conditions (JDict kvs) conds = JDict (AList.update ''conditions'' (JList conds) kvs)"
| "with_conditions v conds = v"

text \<open>A member of a group that is a comparison on one field, not a group.\<close>

fun is_comparison :: "wfilter \<Rightarrow> bool" where
  "is_comparison (By_property field op v) = True"
| "is_comparison _ = False"

section \<open>The query endpoint\<close>

subsection \<open>Coercion of \<^verbatim>\<open>top_k\<close>\<close>

text \<open>
  \<^verbatim>\<open>int(x)\<close> on a parsed JSON value; what it makes of a \<^verbatim>\<open>str\<close> is the interpreter's
  (\<open>int_of_text\<close>).
\<close>

fun py_int :: "(string \<Rightarrow> int option) \<Rightarrow> json \<Rightarrow> pyexc + int" where
  "py_int of_text JNull = Inl TypeError"
| "py_int of_text (JBool b) = Inr (if b then 1 else 0)"
| "py_int of_text (JInt n) = Inr n"
| "py_int of_text (JFloat x) = Inr (if 0 \<le> x then \<lfloor>x\<rfloor> else \<lceil>x\<rceil>)"
| "py_int of_text (JStr s) = (case of_text s of None \<Rightarrow> Inl ValueError | Some n \<Rightarrow> Inr n)"
| "py_int of_text (JList xs) = Inl TypeError"
| "py_int of_text (JDict kvs) = Inl TypeError"

text \<open>The calls made to the client, recorded in order.\<close>

datatype call =
    Collections_get json
  | Near_text json json int "wfilter option"

subsection \<open>Responses\<close>

text \<open>
  One entry of the JSON array answered on success; \<^verbatim>\<open>jsonify\<close> is taken to serialise
  every list of entries.
\<close>

record search_result =
  res_properties :: "(string \<times> pyval) list"
  score :: real
  res_distance :: "real option"
  res_uuid :: string

text \<open>
  The error bodies of the handler, by the message under \<^verbatim>\<open>error\<close>; the last three
  carry the collection's name or the \<^verbatim>\<open>details\<close>.
\<close>

datatype error =
    Request_body_must_be_JSON
  | Missing_required_fields
  | Exclude_fields_must_be_a_list_of_strings
  | Collection_not_found json
  | Failed_to_access_collection string
  | Internal_server_error pyexc

datatype body = Results "search_result list" | Error error

type_synonym response = "body \<times> nat"

text \<open>\<^verbatim>\<open>needle in text\<close> on strings.\<close>

fun str_contains :: "string \<Rightarrow> string \<Rightarrow> bool" where
  "str_contains [] needle = (needle = [])"
| "str_contains (c # cs) needle =
     (take (length needle) (c # cs) = needle \<or> str_contains cs needle)"

subsection \<open>The handler\<close>

text \<open>
  The body of the loop over \<^verbatim>\<open>response.objects\<close>: the entry appended to
  \<^verbatim>\<open>results\<close> for one row. \<open>exclude_fields\<close> holds the elements of the request's list;
  a key is in it when one of the elements is that string.
\<close>

definition result_of :: "json list \<Rightarrow> robject \<Rightarrow> search_result" where
  "result_of exclude_fields obj =
     (let props = process_properties (properties obj);
          filtered_properties =
            (if exclude_fields \<noteq> []
             then filter (\<lambda>(k, v). JStr k \<notin> set exclude_fields) props
             else props);
          dist = (if metadata obj \<noteq> None \<and> distance (the (metadata obj)) \<noteq> None
                  then distance (the (metadata obj)) else None);
          sc = (if dist \<noteq> None then 1 - the dist else 0)
      in \<lparr>res_properties = filtered_properties, score = sc, res_distance = dist,
          res_uuid = uuid obj\<rparr>)"

text \<open>
  \<^verbatim>\<open>query_collection\<close> on the parsed body \<open>data\<close>: the response and the calls made to
  the client. An exception that reaches the outer handler is answered with 500.
\<close>

fun query_collection :: "environment \<Rightarrow> json \<Rightarrow> response \<times> call list" where
  "query_collection c data =
     (if \<not> truthy data then ((Error Request_body_must_be_JSON, 400), [])
      else case data of
        JDict kvs \<Rightarrow>
          (let collection_name = get kvs ''collection_name'';
               query_text = get kvs ''query''
           in if \<not> truthy collection_name \<or> \<not> truthy query_text
              then ((Error Missing_required_fields, 400), [])
              else case py_int (int_of_text c) (get_default kvs ''top_k'' (JInt 5)) of
                Inl e \<Rightarrow> ((Error (Internal_server_error e), 500), [])
              | Inr top_k \<Rightarrow>
                  (case get_default kvs ''exclude_fields'' (JList []) of
                     JList exclude_fields \<Rightarrow>
                       (let filters_input = get kvs ''filters'' in
                        case collections_get c collection_name of
                          Some msg \<Rightarrow>
                            if str_contains msg ''Not found: Collection'' \<or>
                               str_contains msg ''doesn't exist''
                            then ((Error (Collection_not_found collection_name), 404),
                                  [Collections_get collection_name])
                            else ((Error (Failed_to_access_collection msg), 500),
                                  [Collections_get collection_name])
                        | None \<Rightarrow>
                            (case weaviate_filter c filters_input of
                               Inl e \<Rightarrow>
                                 ((Error (Internal_server_error e), 500),
                                  [Collections_get collection_name])
                             | Inr compiled \<Rightarrow>
                                 (case near_text c collection_name query_text top_k compiled of
                                    Inl msg \<Rightarrow>
                                      ((Error (Internal_server_error (ClientError msg)), 500),
                                       [Collections_get collection_name,
                                        Near_text collection_name query_text top_k compiled])
                                  | Inr objects \<Rightarrow>
                                      ((Results (map (result_of exclude_fields) objects), 200),
                                       [Collections_get collection_name,
                                        Near_text collection_name query_text top_k compiled]))))
                   | _ \<Rightarrow> ((Error Exclude_fields_must_be_a_list_of_strings, 400), [])))
      | _ \<Rightarrow> ((Error (Internal_server_error AttributeError), 500), []))"

declare query_collection.simps [simp del]

text \<open>The distance the backend supplied with a row, if any.\<close>

definition supplied_distance :: "robject \<Rightarrow> real option" where
  "supplied_distance obj = (case metadata obj of None \<Rightarrow> None | Some m \<Rightarrow> distance m)"

text \<open>
  The rows the backend returned to the search calls that were made, and the elements
  of the request's \<^verbatim>\<open>exclude_fields\<close> list.
\<close>

fun rows_of_call :: "environment \<Rightarrow> call \<Rightarrow> robject list" where
  "rows_of_call c (Near_text name query_text top_k compiled) =
     (case near_text c name query_text top_k compiled of
        Inl msg \<Rightarrow> []
      | Inr objects \<Rightarrow> objects)"
| "rows_of_call c (Collections_get name) = []"

definition returned_rows :: "environment \<Rightarrow> call list \<Rightarrow> robject list" where
  "returned_rows c calls = concat (map (rows_of_call c) calls)"

fun exclude_fields_of :: "json \<Rightarrow> json list" where
  "exclude_fields_of (JDict kvs) =
     (case get_default kvs ''exclude_fields'' (JList []) of JList xs \<Rightarrow> xs | _ \<Rightarrow> [])"
| "exclude_fields_of _ = []"

subsection \<open>Examples\<close>

text \<open>
  An interpreter's \<^verbatim>\<open>int\<close>, on ASCII text: blanks around the literal (tab, line feed,
  vertical tab, form feed, carriage return, space), one sign, digits with single
  underscores between them, and no more than 4300 digits. It refuses every other
  text. No example below gives \<^verbatim>\<open>top_k\<close> as a text outside ASCII.
\<close>

definition is_space :: "char \<Rightarrow> bool" where
  "is_space ch = (let n = (of_char ch :: nat) in (9 \<le> n \<and> n \<le> 13) \<or> n = 32)"

definition strip :: "string \<Rightarrow> string" where
  "strip s = rev (dropWhile is_space (rev (dropWhile is_space s)))"

definition digit_of :: "char \<Rightarrow> int option" where
  "digit_of ch =
     (let n = (of_char ch :: nat) in if 48 \<le> n \<and> n \<le> 57 then Some (int n - 48) else None)"

fun digits_tail :: "int \<Rightarrow> string \<Rightarrow> int option" where
  "digits_tail acc [] = Some acc"
| "digits_tail acc [ch] =
     (case digit_of ch of None \<Rightarrow> None | Some d \<Rightarrow> Some (10 * acc + d))"
| "digits_tail acc (ch # ch' # cs) =
     (if ch = CHR ''_''
      then (case digit_of ch' of None \<Rightarrow> None | Some d \<Rightarrow> digits_tail (10 * acc + d) cs)
      else (case digit_of ch of
              None \<Rightarrow> None
            | Some d \<Rightarrow> digits_tail (10 * acc + d) (ch' # cs)))"

fun digits :: "string \<Rightarrow> int option" where
  "digits [] = None"
| "digits (ch # cs) =
     (if 4300 < length (filter (\<lambda>x. digit_of x \<noteq> None) (ch # cs)) then None
      else case digit_of ch of None \<Rightarrow> None | Some d \<Rightarrow> digits_tail d cs)"

definition int_of_ascii :: "string \<Rightarrow> int option" where
  "int_of_ascii s =
     (case strip s of
        [] \<Rightarrow> None
      | ch # cs \<Rightarrow>
          if ch = CHR ''-'' then map_option uminus (digits cs)
          else if ch = CHR ''+'' then digits cs
          else digits (ch # cs))"

text \<open>
  In the examples the collection is found, the builders of the library return, and
  the search returns the rows named. First, five rows: with distances 0.1, 0.4 and
  0.0, with metadata that holds no distance, and with no metadata.
\<close>

definition scored_rows :: environment where
  "scored_rows =
     \<lparr>collections_get = (\<lambda>name. None),
      near_text = (\<lambda>name query_text top_k compiled.
        Inr [\<lparr>properties = [(''title'', PStr ''a'')],
              metadata = Some \<lparr>distance = Some (1 / 10)\<rparr>, uuid = ''u1''\<rparr>,
             \<lparr>properties = [(''title'', PStr ''b'')],
              metadata = Some \<lparr>distance = Some (2 / 5)\<rparr>, uuid = ''u2''\<rparr>,
             \<lparr>properties = [], metadata = Some \<lparr>distance = Some 0\<rparr>, uuid = ''u3''\<rparr>,
             \<lparr>properties = [], metadata = Some \<lparr>distance = None\<rparr>, uuid = ''u4''\<rparr>,
             \<lparr>properties = [], metadata = None, uuid = ''u5''\<rparr>]),
      by_property = (\<lambda>field. None),
      comparison_method = (\<lambda>field op v. None),
      int_of_text = int_of_ascii\<rparr>"

text \<open>One row at cosine distance 1.5.\<close>

definition far_row :: environment where
  "far_row =
     \<lparr>collections_get = (\<lambda>name. None),
      near_text = (\<lambda>name query_text top_k compiled.
        Inr [\<lparr>properties = [], metadata = Some \<lparr>distance = Some (3 / 2)\<rparr>,
              uuid = ''u1''\<rparr>]),
      by_property = (\<lambda>field. None),
      comparison_method = (\<lambda>field op v. None),
      int_of_text = int_of_ascii\<rparr>"

text \<open>
  One row; a nested mapping of the row holds a key that is also a key of the row.
\<close>

definition one_row :: environment where
  "one_row =
     \<lparr>collections_get = (\<lambda>name. None),
      near_text = (\<lambda>name query_text top_k compiled.
        Inr [\<lparr>properties =
                [(''title'', PStr ''a''),
                 (''meta'', PDict [(''title'', PStr ''inner''), (''year'', PInt 2020)]),
                 (''year'', PInt 2021)],
              metadata = Some \<lparr>distance = Some (1 / 4)\<rparr>, uuid = ''u1''\<rparr>]),
      by_property = (\<lambda>field. None),
      comparison_method = (\<lambda>field op v. None),
      int_of_text = int_of_ascii\<rparr>"

section \<open>Facts about the compiled filter\<close>

lemma call_lower_textual:
  "operator_textual kvs \<Longrightarrow>
   call_lower (get_default kvs ''operator'' (JStr d)) =
     Inr (case map_of kvs ''operator'' of Some (JStr s) \<Rightarrow> lower s | _ \<Rightarrow> lower d)"
  by (cases "map_of kvs ''operator''")
     (auto simp: operator_textual_def get_default_def elim: is_str.elims)

lemma call_lower_condition:
  "operator_textual kvs \<Longrightarrow>
   call_lower (get_default kvs ''operator'' (JStr [])) = Inr (spec_operator kvs)"
  by (cases "map_of kvs ''operator''")
     (auto simp: operator_textual_def get_default_def spec_operator_def
           elim: is_str.elims)

lemma loop_step_invalid:
  assumes "operator_textual kvs" and "\<not> spec_valid (JDict kvs)"
    and "\<And>field. by_property c field = None"
  shows "filter_conditions_loop c (JDict kvs # rest) acc = filter_conditions_loop c rest acc"
  using assms by (auto simp: call_lower_condition Let_def supported_ops_def)

lemma loop_step_valid:
  assumes "operator_textual kvs" and "spec_valid (JDict kvs)"
    and "\<And>field. by_property c field = None"
    and "\<And>field op v. comparison_method c field op v = None"
  shows "filter_conditions_loop c (JDict kvs # rest) acc =
         filter_conditions_loop c rest (acc @ [spec_comparison (JDict kvs)])"
  using assms
  by (auto simp: call_lower_condition Let_def supported_ops_def spec_table_def
        comparison_of_def)

lemma loop_refines:
  assumes "\<And>field. by_property c field = None"
    and "\<And>field op v. comparison_method c field op v = None"
  shows "list_all condition_shaped conds \<Longrightarrow>
         filter_conditions_loop c conds acc =
           Inr (acc @ map spec_comparison (filter spec_valid conds))"
proof (induction conds arbitrary: acc)
  case Nil
  show ?case by simp
next
  case (Cons cond conds)
  from Cons.prems obtain kvs where cond: "cond = JDict kvs" and op: "operator_textual kvs"
    by (cases cond) auto
  from Cons.prems have rest: "list_all condition_shaped conds" by simp
  show ?case
  proof (cases "spec_valid cond")
    case True
    then show ?thesis
      using loop_step_valid [OF op _ assms, of conds] Cons.IH [OF rest] cond
      by (simp del: filter_conditions_loop.simps spec_valid.simps spec_comparison.simps)
  next
    case False
    then show ?thesis
      using loop_step_invalid [OF op _ assms(1), of conds] Cons.IH [OF rest] cond
      by (simp del: filter_conditions_loop.simps spec_valid.simps spec_comparison.simps)
  qed
qed

lemma lower_And: "lower ''And'' = ''and''"
  by code_simp

lemma operator_type_or:
  assumes "operator_textual kvs"
  shows "call_lower (get_default kvs ''operator'' (JStr ''And'')) = Inr t \<Longrightarrow>
         (t = ''or'') = (spec_operator kvs = ''or'')"
  using assms
  by (cases "map_of kvs ''operator''")
     (auto simp: operator_textual_def get_default_def spec_operator_def lower_And
           elim: is_str.elims)

lemma call_lower_returns:
  "operator_textual kvs \<Longrightarrow> \<exists>t. call_lower (get_default kvs ''operator'' (JStr d)) = Inr t"
  by (simp add: call_lower_textual)

text \<open>
  On a specification of that shape, and when the builders of the library return,
  the source's compiler raises nothing and returns what the specification's compiler
  describes.
\<close>

lemma weaviate_filter_refines:
  assumes "filter_spec fi"
    and "\<And>field. by_property c field = None"
    and "\<And>field op v. comparison_method c field op v = None"
  shows "weaviate_filter c fi =
         Inr (if filter spec_valid (conditions_of fi) = [] then None
              else Some (spec_combinator fi
                           (map spec_comparison (filter spec_valid (conditions_of fi)))))"
proof (cases fi)
  case (JDict kvs)
  with assms(1) have op: "operator_textual kvs"
    and shaped: "list_all condition_shaped (conditions_of (JDict kvs))"
    by simp_all
  from call_lower_returns [OF op] obtain t
    where t: "call_lower (get_default kvs ''operator'' (JStr ''And'')) = Inr t"
    by blast
  have or: "(t = ''or'') = (spec_operator kvs = ''or'')"
    using operator_type_or [OF op t] .
  show ?thesis
  proof (cases "get_default kvs ''conditions'' (JList [])")
    case (JList conds)
    with shaped have "list_all condition_shaped conds" by simp
    then have loop: "filter_conditions_loop c conds [] =
        Inr (map spec_comparison (filter spec_valid conds))"
      using loop_refines [OF assms(2,3), of conds "[]"] by simp
    have empty: "kvs = [] \<Longrightarrow> conds = []"
      using JList by (simp add: get_default_def)
    show ?thesis
      using JDict JList t or loop empty
      by (auto simp: weaviate_filter_def)
  qed (use JDict t in \<open>auto simp: weaviate_filter_def\<close>)
qed (simp_all add: weaviate_filter_def)

lemma invalid_not_valid: "invalid_condition cond \<Longrightarrow> \<not> spec_valid cond"
  by (cases cond) auto

lemma filter_valid_invalid:
  "filter spec_valid (filter (\<lambda>cond. \<not> invalid_condition cond) conds) = filter spec_valid conds"
  by (induction conds) (auto dest: invalid_not_valid)

lemma spec_operator_with_conditions:
  "spec_operator (AList.update ''conditions'' v kvs) = spec_operator kvs"
  by (simp add: spec_operator_def update_conv')

lemma conditions_of_with_conditions:
  "conditions_of (with_conditions (JDict kvs) conds) = conds"
  by (simp add: get_default_def update_conv')

lemma filter_spec_with_conditions:
  assumes "filter_spec fi" and "set conds \<subseteq> set (conditions_of fi)"
  shows "filter_spec (with_conditions fi conds)"
proof (cases fi)
  case (JDict kvs)
  from assms JDict have "list_all condition_shaped conds"
    by (auto simp: list_all_iff)
  moreover from assms JDict have "operator_textual (AList.update ''conditions'' (JList conds) kvs)"
    by (simp add: operator_textual_def update_conv')
  ultimately show ?thesis
    using JDict conditions_of_with_conditions [of kvs conds] by simp
qed (use assms in simp_all)

text \<open>
  On a specification of that shape, the conditions the specification calls invalid
  are skipped: the compiled predicate is the one compiled without them, and it is
  \<open>None\<close> when every condition is invalid.
\<close>

lemma invalid_conditions_skipped:
  assumes "filter_spec fi"
    and "\<And>field. by_property c field = None"
    and "\<And>field op v. comparison_method c field op v = None"
  shows "weaviate_filter c fi =
           weaviate_filter c
             (with_conditions fi (filter (\<lambda>cond. \<not> invalid_condition cond) (conditions_of fi)))
         \<and> (\<exists>p. weaviate_filter c fi = Inr p)
         \<and> ((\<forall>cond \<in> set (conditions_of fi). invalid_condition cond) \<longrightarrow>
              weaviate_filter c fi = Inr None)"
proof -
  let ?kept = "filter (\<lambda>cond. \<not> invalid_condition cond) (conditions_of fi)"
  note refines = weaviate_filter_refines [OF _ assms(2,3)]
  have shaped: "filter_spec (with_conditions fi ?kept)"
    using filter_spec_with_conditions [OF assms(1), of ?kept] by simp
  have conds: "filter spec_valid (conditions_of (with_conditions fi ?kept)) =
               filter spec_valid (conditions_of fi)"
  proof (cases fi)
    case (JDict kvs)
    then show ?thesis
      using conditions_of_with_conditions [of kvs ?kept] filter_valid_invalid [of "conditions_of fi"]
      by simp
  qed simp_all
  have comb: "spec_combinator (with_conditions fi ?kept) = spec_combinator fi"
    by (cases fi) (simp_all add: spec_operator_with_conditions)
  have same: "weaviate_filter c fi = weaviate_filter c (with_conditions fi ?kept)"
    unfolding refines [OF assms(1)] refines [OF shaped] conds comb
    by (rule refl)
  have none: "(\<forall>cond \<in> set (conditions_of fi). invalid_condition cond) \<longrightarrow>
              weaviate_filter c fi = Inr None"
  proof
    assume "\<forall>cond \<in> set (conditions_of fi). invalid_condition cond"
    then have "filter spec_valid (conditions_of fi) = []"
      by (auto simp: filter_empty_conv dest: invalid_not_valid)
    then show "weaviate_filter c fi = Inr None"
      by (simp add: refines [OF assms(1)])
  qed
  have returns: "\<exists>p. weaviate_filter c fi = Inr p"
    unfolding refines [OF assms(1)] by (rule exI) (rule refl)
  from same returns none show ?thesis
    by (intro conjI)
qed

lemma lower_char_o: "lower_char ch = CHR ''o'' \<longleftrightarrow> ch = CHR ''o'' \<or> ch = CHR ''O''"
proof -
  have range: "(of_char ch :: nat) < 256" by simp
  have inj: "(of_char ch :: nat) = of_char d \<longleftrightarrow> ch = d" for d by simp
  show ?thesis
    unfolding lower_char_def Let_def
    using range inj [of "CHR ''O''"] inj [of "CHR ''o''"]
    by (auto simp: char_of_eq_iff take_bit_eq_mod)
qed

lemma lower_char_r: "lower_char ch = CHR ''r'' \<longleftrightarrow> ch = CHR ''r'' \<or> ch = CHR ''R''"
proof -
  have range: "(of_char ch :: nat) < 256" by simp
  have inj: "(of_char ch :: nat) = of_char d \<longleftrightarrow> ch = d" for d by simp
  show ?thesis
    unfolding lower_char_def Let_def
    using range inj [of "CHR ''R''"] inj [of "CHR ''r''"]
    by (auto simp: char_of_eq_iff take_bit_eq_mod)
qed

lemma lower_Nil: "lower s = [] \<longleftrightarrow> s = []"
  by (induction s rule: lower.induct) auto

lemma lower_length3: "lower (a # b # ch # s) \<noteq> ''or''"
proof (cases s)
  case Nil
  then show ?thesis by auto
next
  case (Cons d t)
  then show ?thesis by (auto simp: lower_Nil)
qed

lemma lower_or: "lower s = ''or'' \<longleftrightarrow> s \<in> {''or'', ''Or'', ''oR'', ''OR''}"
proof (cases s)
  case Nil
  then show ?thesis by simp
next
  case s1: (Cons a s1)
  show ?thesis
  proof (cases s1)
    case Nil
    with s1 show ?thesis by simp
  next
    case s2: (Cons b s2)
    show ?thesis
    proof (cases s2)
      case Nil
      with s1 s2 show ?thesis by (auto simp: lower_char_o lower_char_r)
    next
      case (Cons ch t)
      with s1 s2 show ?thesis using lower_length3 [of a b ch t] by auto
    qed
  qed
qed

lemma spec_operator_or:
  "(spec_operator kvs = ''or'') =
   (map_of kvs ''operator'' \<in>
      {Some (JStr ''or''), Some (JStr ''Or''), Some (JStr ''oR''), Some (JStr ''OR'')})"
proof (cases "map_of kvs ''operator''")
  case None
  then show ?thesis by (simp add: spec_operator_def)
next
  case (Some v)
  then show ?thesis
    using lower_or by (cases v) (auto simp: spec_operator_def)
qed

text \<open>
  On a specification of that shape with at least one valid condition, the compiled
  predicate is one group over the comparisons of the valid conditions, in the order
  of the conditions: \<open>Any_of\<close> when the specification's \<^verbatim>\<open>operator\<close> reads \<^verbatim>\<open>or\<close> in
  any case, \<open>All_of\<close> for every other text and when it is absent. The members of the
  group are comparisons, never groups.
\<close>

lemma valid_conditions_combined:
  assumes "filter_spec (JDict kvs)"
    and "filter spec_valid (conditions_of (JDict kvs)) \<noteq> []"
    and "\<And>field. by_property c field = None"
    and "\<And>field op v. comparison_method c field op v = None"
  shows "weaviate_filter c (JDict kvs) =
           Inr (Some ((if map_of kvs ''operator'' \<in>
                           {Some (JStr ''or''), Some (JStr ''Or''),
                            Some (JStr ''oR''), Some (JStr ''OR'')}
                       then Any_of else All_of)
                        (map spec_comparison (filter spec_valid (conditions_of (JDict kvs))))))
         \<and> list_all is_comparison
              (map spec_comparison (filter spec_valid (conditions_of (JDict kvs))))"
proof -
  have "is_comparison (spec_comparison cond)" for cond
    by (cases cond) simp_all
  then have flat: "list_all is_comparison (map spec_comparison cs)" for cs
    by (simp add: list_all_iff)
  from assms(2) show ?thesis
    unfolding weaviate_filter_refines [OF assms(1,3,4)]
    by (simp add: flat spec_operator_or del: conditions_of.simps)
qed

text \<open>
  C1 at a request whose filter holds, beside a valid condition, a condition with the
  operator 7: a condition with an unsupported operator. The call of \<^verbatim>\<open>lower\<close> on the
  operator comes before the test that would skip the condition and raises
  \<^verbatim>\<open>AttributeError\<close>; the request is answered with 500 and no search is made.
\<close>

theorem unsupported_operator_fails_request:
  "invalid_condition
     (JDict [(''field'', JStr ''year''), (''operator'', JInt 7), (''value'', JInt 2020)])
   \<and> query_collection one_row
     (JDict [(''collection_name'', JStr ''Docs''), (''query'', JStr ''hello''),
             (''filters'', JDict [(''conditions'', JList
                [JDict [(''field'', JStr ''status''), (''operator'', JStr ''eq''),
                        (''value'', JStr ''active'')],
                 JDict [(''field'', JStr ''year''), (''operator'', JInt 7),
                        (''value'', JInt 2020)]])])]) =
   ((Error (Internal_server_error AttributeError), 500), [Collections_get (JStr ''Docs'')])"
  by code_simp

text \<open>
  C2 at two requests whose filter holds one valid condition and an \<^verbatim>\<open>operator\<close> that
  is not \<^verbatim>\<open>or\<close>: null, and the number 5. The call of \<^verbatim>\<open>lower\<close> on it raises
  \<^verbatim>\<open>AttributeError\<close>; the request is answered with 500 and no search is made, where
  the conditions were to be combined with AND.
\<close>

theorem other_operator_fails_request:
  "query_collection one_row
     (JDict [(''collection_name'', JStr ''Docs''), (''query'', JStr ''hello''),
             (''filters'', JDict [(''operator'', JNull), (''conditions'', JList
                [JDict [(''field'', JStr ''status''), (''operator'', JStr ''eq''),
                        (''value'', JStr ''active'')]])])]) =
   ((Error (Internal_server_error AttributeError), 500), [Collections_get (JStr ''Docs'')])
   \<and> query_collection one_row
     (JDict [(''collection_name'', JStr ''Docs''), (''query'', JStr ''hello''),
             (''filters'', JDict [(''operator'', JInt 5), (''conditions'', JList
                [JDict [(''field'', JStr ''status''), (''operator'', JStr ''eq''),
                        (''value'', JStr ''active'')]])])]) =
   ((Error (Internal_server_error AttributeError), 500), [Collections_get (JStr ''Docs'')])"
  by code_simp

text \<open>
  The same requests with the operator \<^verbatim>\<open>bogus\<close> in the condition, and with no
  \<^verbatim>\<open>operator\<close> in the specification, are answered after a search filtered by the
  valid condition alone.
\<close>

lemma textual_operator_requests:
  "snd (query_collection one_row
     (JDict [(''collection_name'', JStr ''Docs''), (''query'', JStr ''hello''),
             (''filters'', JDict [(''conditions'', JList
                [JDict [(''field'', JStr ''status''), (''operator'', JStr ''eq''),
                        (''value'', JStr ''active'')],
                 JDict [(''field'', JStr ''year''), (''operator'', JStr ''bogus''),
                        (''value'', JInt 2020)]])])])) =
   [Collections_get (JStr ''Docs''),
    Near_text (JStr ''Docs'') (JStr ''hello'') 5
      (Some (All_of [By_property (JStr ''status'') Equal (JStr ''active'')]))]"
  by code_simp

section \<open>Facts about the normaliser\<close>

lemma hasattr_builtin [simp]:
  "\<not> hasattr PNone n" "\<not> hasattr (PBool b) n" "\<not> hasattr (PInt i) n"
  "\<not> hasattr (PFloat x) n" "\<not> hasattr (PStr s) n" "\<not> hasattr (PDatetime s) n"
  "\<not> hasattr (PUUID s) n" "\<not> hasattr (PList xs) n" "\<not> hasattr (PDict kvs) n"
  by (simp_all add: hasattr_def)

lemma process_single_value_scalar: "json_scalar v \<Longrightarrow> process_single_value v = v"
  by (cases v) (simp_all add: process_single_value.simps)

lemma process_single_value_PStr [simp]: "process_single_value (PStr s) = PStr s"
  by (simp add: process_single_value.simps)

lemma process_single_value_PList [simp]:
  "process_single_value (PList xs) = PList (map process_single_value xs)"
  by (simp add: process_single_value.simps)

lemma process_single_value_PDict [simp]:
  "process_single_value (PDict kvs) = PDict (map (\<lambda>(k, x). (k, process_single_value x)) kvs)"
  by (simp add: process_single_value.simps)

lemma process_properties_loop_step:
  "process_properties_loop ((key, v) # rest) processed =
   process_properties_loop rest (AList.update key (process_single_value v) processed)"
  by (auto simp: process_single_value.simps [of v])

lemma update_fresh:
  "key \<notin> fst ` set processed \<Longrightarrow> AList.update key x processed = processed @ [(key, x)]"
  by (induction processed) auto

lemma process_properties_loop_map:
  "distinct (map fst props) \<Longrightarrow> fst ` set props \<inter> fst ` set processed = {} \<Longrightarrow>
   process_properties_loop props processed =
     processed @ map (\<lambda>(k, x). (k, process_single_value x)) props"
proof (induction props arbitrary: processed)
  case Nil
  show ?case by simp
next
  case (Cons p props)
  obtain key v where p: "p = (key, v)" by (cases p)
  from Cons.prems p have fresh: "key \<notin> fst ` set processed" by auto
  from Cons.prems p have "distinct (map fst props)"
    and "fst ` set props \<inter> fst ` set (processed @ [(key, process_single_value v)]) = {}"
    by auto
  from Cons.IH [OF this] show ?case
    unfolding p process_properties_loop_step update_fresh [OF fresh] by simp
qed

lemma process_properties_map:
  "distinct (map fst props) \<Longrightarrow>
   process_properties props = map (\<lambda>(k, x). (k, process_single_value x)) props"
  using process_properties_loop_map [of props "[]"]
  by (simp add: process_properties_def)

text \<open>
  C6. The normaliser is idempotent on the values of the backend: normalising a
  normalised value changes nothing.
\<close>

theorem normalize_idempotent:
  "backend_value v \<Longrightarrow> process_single_value (process_single_value v) = process_single_value v"
proof (induction v rule: process_single_value.induct)
  case (1 v)
  note bv = backend_value.simps [of v]
  note ps = process_single_value.simps [of v]
  consider (dt) "is_datetime v"
    | (uuid) "\<not> is_datetime v" "is_uuid v"
    | (geo) "\<not> is_datetime v" "\<not> is_uuid v" "hasattr v ''latitude'' \<and> hasattr v ''longitude''"
    | (list) "\<not> is_datetime v" "\<not> is_uuid v"
        "\<not> (hasattr v ''latitude'' \<and> hasattr v ''longitude'')" "is_list v"
    | (dict) "\<not> is_datetime v" "\<not> is_uuid v"
        "\<not> (hasattr v ''latitude'' \<and> hasattr v ''longitude'')" "\<not> is_list v" "is_dict v"
    | (other) "\<not> is_datetime v" "\<not> is_uuid v"
        "\<not> (hasattr v ''latitude'' \<and> hasattr v ''longitude'')" "\<not> is_list v" "\<not> is_dict v"
    by blast
  then show ?case
  proof cases
    case dt
    then show ?thesis by (simp add: ps)
  next
    case uuid
    then show ?thesis by (simp add: ps)
  next
    case geo
    with "1.prems" have "json_scalar (the (getattr v ''latitude''))"
      and "json_scalar (the (getattr v ''longitude''))"
      by (simp_all add: bv)
    with geo show ?thesis
      by (simp add: ps process_single_value_scalar)
  next
    case list
    with "1.prems" have items: "\<forall>x \<in> set (list_items v). backend_value x"
      by (simp add: bv list_all_iff)
    have "process_single_value (process_single_value x) = process_single_value x"
      if "x \<in> set (list_items v)" for x
      using "1.IH"(1) [of x] list that items by simp
    with list show ?thesis
      by (auto simp: ps)
  next
    case dict
    with "1.prems" have items: "\<forall>(k, x) \<in> set (dict_items v). backend_value x"
      by (simp add: bv list_all_iff)
    have "process_single_value (process_single_value x) = process_single_value x"
      if "(k, x) \<in> set (dict_items v)" for k x
      using "1.IH"(2) [of "(k, x)" k x] dict that items by auto
    with dict show ?thesis
      by (auto simp: ps)
  next
    case other
    then show ?thesis by (auto simp: ps)
  qed
qed


theorem normalize_idempotent_witness:
  "backend_value
     (PDict [(''when'', PDatetime ''2024-05-01T12:00:00+00:00''),
             (''id'', PUUID ''123e4567-e89b-12d3-a456-426614174000''),
             (''places'', PList [PObject None [(''latitude'', PFloat 52), (''longitude'', PFloat 13)]]),
             (''n'', PInt 3)])
   \<and> process_single_value (process_single_value
     (PDict [(''when'', PDatetime ''2024-05-01T12:00:00+00:00''),
             (''id'', PUUID ''123e4567-e89b-12d3-a456-426614174000''),
             (''places'', PList [PObject None [(''latitude'', PFloat 52), (''longitude'', PFloat 13)]]),
             (''n'', PInt 3)]))
     = PDict [(''when'', PStr ''2024-05-01T12:00:00+00:00''),
             (''id'', PStr ''123e4567-e89b-12d3-a456-426614174000''),
             (''places'', PList [PDict [(''latitude'', PFloat 52), (''longitude'', PFloat 13)]]),
             (''n'', PInt 3)]"
proof -
  let ?v = "PDict [(''when'', PDatetime ''2024-05-01T12:00:00+00:00''),
             (''id'', PUUID ''123e4567-e89b-12d3-a456-426614174000''),
             (''places'', PList [PObject None [(''latitude'', PFloat 52), (''longitude'', PFloat 13)]]),
             (''n'', PInt 3)]"
  have bv: "backend_value ?v"
    by code_simp
  have once: "process_single_value ?v =
      PDict [(''when'', PStr ''2024-05-01T12:00:00+00:00''),
             (''id'', PStr ''123e4567-e89b-12d3-a456-426614174000''),
             (''places'', PList [PDict [(''latitude'', PFloat 52), (''longitude'', PFloat 13)]]),
             (''n'', PInt 3)]"
    by code_simp
  from normalize_idempotent [OF bv] bv once show ?thesis
    by simp
qed

text \<open>
  C7. The normaliser classifies a value by the first test that holds, in this order:
  a timestamp becomes its ISO-8601 text; then an identifier becomes its text; then
  a value with \<^verbatim>\<open>latitude\<close> and \<^verbatim>\<open>longitude\<close> becomes the mapping of the two; then a
  list is normalised element by element, in order; then a mapping is normalised
  value by value under the same keys; any other value is returned unchanged. A
  value that passes an earlier test is never treated by a later one. The loop of
  \<^verbatim>\<open>process_properties\<close> over a row's properties does the same to each value.
\<close>

theorem classification_priority:
  "(is_datetime v \<longrightarrow> process_single_value v = PStr (isoformat v))
   \<and> (\<not> is_datetime v \<and> is_uuid v \<longrightarrow> process_single_value v = PStr (str_uuid v))
   \<and> (\<not> is_datetime v \<and> \<not> is_uuid v \<and> hasattr v ''latitude'' \<and> hasattr v ''longitude'' \<longrightarrow>
        process_single_value v =
          PDict [(''latitude'', the (getattr v ''latitude'')),
                 (''longitude'', the (getattr v ''longitude''))])
   \<and> (\<not> is_datetime v \<and> \<not> is_uuid v \<and> \<not> (hasattr v ''latitude'' \<and> hasattr v ''longitude'') \<and>
        is_list v \<longrightarrow>
        process_single_value v = PList (map process_single_value (list_items v)))
   \<and> (\<not> is_datetime v \<and> \<not> is_uuid v \<and> \<not> (hasattr v ''latitude'' \<and> hasattr v ''longitude'') \<and>
        \<not> is_list v \<and> is_dict v \<longrightarrow>
        process_single_value v =
          PDict (map (\<lambda>(k, x). (k, process_single_value x)) (dict_items v)))
   \<and> (\<not> is_datetime v \<and> \<not> is_uuid v \<and> \<not> (hasattr v ''latitude'' \<and> hasattr v ''longitude'') \<and>
        \<not> is_list v \<and> \<not> is_dict v \<longrightarrow>
        process_single_value v = v)
   \<and> (distinct (map fst props) \<longrightarrow>
        process_properties props = map (\<lambda>(k, x). (k, process_single_value x)) props)"
proof (intro conjI impI)
  show "process_properties props = map (\<lambda>(k, x). (k, process_single_value x)) props"
    if "distinct (map fst props)"
    using that by (rule process_properties_map)
qed (auto simp: process_single_value.simps [of v])

theorem classification_priority_witness:
  "process_single_value
     (PObject (Some (PDatetime ''2024-05-01T12:00:00'')) [(''latitude'', PFloat 1), (''longitude'', PFloat 2)])
     = PStr ''2024-05-01T12:00:00''
   \<and> process_single_value (PUUID ''123e4567-e89b-12d3-a456-426614174000'')
     = PStr ''123e4567-e89b-12d3-a456-426614174000''
   \<and> process_single_value
     (PObject (Some (PList [PInt 1, PInt 2])) [(''latitude'', PFloat 1), (''longitude'', PFloat 2)])
     = PDict [(''latitude'', PFloat 1), (''longitude'', PFloat 2)]
   \<and> process_single_value (PList [PInt 2, PUUID ''ab'', PInt 1]) = PList [PInt 2, PStr ''ab'', PInt 1]
   \<and> process_single_value (PDict [(''b'', PDatetime ''2024''), (''a'', PList [])])
     = PDict [(''b'', PStr ''2024''), (''a'', PList [])]
   \<and> process_single_value (PFloat (1 / 2)) = PFloat (1 / 2)
   \<and> process_properties [(''tags'', PList [PUUID ''ab'']), (''at'', PDatetime ''2024'')]
     = [(''tags'', PList [PStr ''ab'']), (''at'', PStr ''2024'')]"
proof -
  let ?dt = "PObject (Some (PDatetime ''2024-05-01T12:00:00'')) [(''latitude'', PFloat 1), (''longitude'', PFloat 2)]"
  let ?geo = "PObject (Some (PList [PInt 1, PInt 2])) [(''latitude'', PFloat 1), (''longitude'', PFloat 2)]"
  let ?props = "[(''tags'', PList [PUUID ''ab'']), (''at'', PDatetime ''2024'')]"
  have 1: "process_single_value ?dt = PStr ''2024-05-01T12:00:00''"
    using classification_priority [of ?dt "[]"] by simp
  have 2: "process_single_value (PUUID ''123e4567-e89b-12d3-a456-426614174000'')
     = PStr ''123e4567-e89b-12d3-a456-426614174000''"
    using classification_priority [of "PUUID ''123e4567-e89b-12d3-a456-426614174000''" "[]"] by simp
  have 3: "process_single_value ?geo = PDict [(''latitude'', PFloat 1), (''longitude'', PFloat 2)]"
    using classification_priority [of ?geo "[]"] by (simp add: hasattr_def)
  have 6: "process_single_value (PFloat (1 / 2)) = PFloat (1 / 2)"
    using classification_priority [of "PFloat (1 / 2)" "[]"] by simp
  have u: "process_single_value (PUUID ''ab'') = PStr ''ab''"
    using classification_priority [of "PUUID ''ab''" "[]"] by simp
  have i1: "process_single_value (PInt 1) = PInt 1"
    using classification_priority [of "PInt 1" "[]"] by simp
  have i2: "process_single_value (PInt 2) = PInt 2"
    using classification_priority [of "PInt 2" "[]"] by simp
  have d: "process_single_value (PDatetime ''2024'') = PStr ''2024''"
    using classification_priority [of "PDatetime ''2024''" "[]"] by simp
  have 4: "process_single_value (PList [PInt 2, PUUID ''ab'', PInt 1]) = PList [PInt 2, PStr ''ab'', PInt 1]"
    using classification_priority [of "PList [PInt 2, PUUID ''ab'', PInt 1]" "[]"] u i1 i2 by simp
  have e: "process_single_value (PList []) = PList []"
    using classification_priority [of "PList []" "[]"] by simp
  have 5: "process_single_value (PDict [(''b'', PDatetime ''2024''), (''a'', PList [])])
     = PDict [(''b'', PStr ''2024''), (''a'', PList [])]"
    using classification_priority [of "PDict [(''b'', PDatetime ''2024''), (''a'', PList [])]" "[]"] d e by simp
  have l: "process_single_value (PList [PUUID ''ab'']) = PList [PStr ''ab'']"
    using classification_priority [of "PList [PUUID ''ab'']" "[]"] u by simp
  have 7: "process_properties ?props = [(''tags'', PList [PStr ''ab'']), (''at'', PStr ''2024'')]"
    using classification_priority [of PNone ?props] l d by simp
  from 1 2 3 4 5 6 7 show ?thesis
    by (intro conjI)
qed

section \<open>Facts about the query endpoint\<close>

lemma query_collection_results:
  assumes "query_collection c data = ((Results rs, st), calls)"
  shows "\<exists>kvs top_k compiled objects.
           data = JDict kvs
           \<and> near_text c (get kvs ''collection_name'') (get kvs ''query'') top_k compiled
               = Inr objects
           \<and> rs = map (result_of (exclude_fields_of data)) objects \<and> st = 200
           \<and> calls = [Collections_get (get kvs ''collection_name''),
                      Near_text (get kvs ''collection_name'') (get kvs ''query'') top_k compiled]"
  using assms
  by (auto simp: query_collection.simps Let_def
           split: if_splits json.splits sum.splits option.splits)

lemma returned_rows_results:
  assumes "query_collection c data = ((Results rs, st), calls)"
  shows "rs = map (result_of (exclude_fields_of data)) (returned_rows c calls)"
  using query_collection_results [OF assms]
  by (auto simp: returned_rows_def)

lemma list_all2_map_self: "(\<And>x. P x (f x)) \<Longrightarrow> list_all2 P xs (map f xs)"
  by (induction xs) simp_all

lemma result_of_distance: "res_distance (result_of ef obj) = supplied_distance obj"
  by (cases "metadata obj") (auto simp: result_of_def Let_def supplied_distance_def)

lemma result_of_score:
  "score (result_of ef obj) = (case supplied_distance obj of None \<Rightarrow> 0 | Some d \<Rightarrow> 1 - d)"
  by (cases "metadata obj") (auto simp: result_of_def Let_def supplied_distance_def)

lemma result_of_properties:
  "res_properties (result_of ef obj) =
     filter (\<lambda>(k, x). JStr k \<notin> set ef) (process_properties (properties obj))"
  by (simp add: result_of_def Let_def)

text \<open>
  C4. For every row the backend returned, the emitted result echoes the distance
  supplied with the row, and its score is one minus that distance when a distance
  was supplied (also when it is 0.0) and 0.0 when the row has no metadata or the
  metadata holds no distance.
\<close>

theorem score_from_distance:
  assumes "query_collection c data = ((Results rs, st), calls)"
  shows "list_all2
           (\<lambda>obj r. res_distance r = supplied_distance obj \<and>
                    score r = (case supplied_distance obj of None \<Rightarrow> 0 | Some d \<Rightarrow> 1 - d))
           (returned_rows c calls) rs"
  unfolding returned_rows_results [OF assms]
  by (rule list_all2_map_self) (simp add: result_of_distance result_of_score)

theorem score_from_distance_witness:
  "query_collection scored_rows
     (JDict [(''collection_name'', JStr ''Docs''), (''query'', JStr ''hello'')]) =
   ((Results
       [\<lparr>res_properties = [(''title'', PStr ''a'')], score = 9 / 10,
          res_distance = Some (1 / 10), res_uuid = ''u1''\<rparr>,
        \<lparr>res_properties = [(''title'', PStr ''b'')], score = 3 / 5,
          res_distance = Some (2 / 5), res_uuid = ''u2''\<rparr>,
        \<lparr>res_properties = [], score = 1, res_distance = Some 0, res_uuid = ''u3''\<rparr>,
        \<lparr>res_properties = [], score = 0, res_distance = None, res_uuid = ''u4''\<rparr>,
        \<lparr>res_properties = [], score = 0, res_distance = None, res_uuid = ''u5''\<rparr>], 200),
    [Collections_get (JStr ''Docs''), Near_text (JStr ''Docs'') (JStr ''hello'') 5 None])
   \<and> list_all2
        (\<lambda>obj r. res_distance r = supplied_distance obj \<and>
                 score r = (case supplied_distance obj of None \<Rightarrow> 0 | Some d \<Rightarrow> 1 - d))
        (returned_rows scored_rows
           [Collections_get (JStr ''Docs''), Near_text (JStr ''Docs'') (JStr ''hello'') 5 None])
        [\<lparr>res_properties = [(''title'', PStr ''a'')], score = 9 / 10,
          res_distance = Some (1 / 10), res_uuid = ''u1''\<rparr>,
        \<lparr>res_properties = [(''title'', PStr ''b'')], score = 3 / 5,
          res_distance = Some (2 / 5), res_uuid = ''u2''\<rparr>,
        \<lparr>res_properties = [], score = 1, res_distance = Some 0, res_uuid = ''u3''\<rparr>,
        \<lparr>res_properties = [], score = 0, res_distance = None, res_uuid = ''u4''\<rparr>,
        \<lparr>res_properties = [], score = 0, res_distance = None, res_uuid = ''u5''\<rparr>]"
proof -
  have run: "query_collection scored_rows
     (JDict [(''collection_name'', JStr ''Docs''), (''query'', JStr ''hello'')]) =
   ((Results
       [\<lparr>res_properties = [(''title'', PStr ''a'')], score = 9 / 10,
          res_distance = Some (1 / 10), res_uuid = ''u1''\<rparr>,
        \<lparr>res_properties = [(''title'', PStr ''b'')], score = 3 / 5,
          res_distance = Some (2 / 5), res_uuid = ''u2''\<rparr>,
        \<lparr>res_properties = [], score = 1, res_distance = Some 0, res_uuid = ''u3''\<rparr>,
        \<lparr>res_properties = [], score = 0, res_distance = None, res_uuid = ''u4''\<rparr>,
        \<lparr>res_properties = [], score = 0, res_distance = None, res_uuid = ''u5''\<rparr>], 200),
    [Collections_get (JStr ''Docs''), Near_text (JStr ''Docs'') (JStr ''hello'') 5 None])"
    by code_simp
  from run score_from_distance [OF run] show ?thesis
    by (rule conjI)
qed


text \<open>
  C5, as stated: every emitted score lies in [0, 1]. It fails on a row at cosine
  distance 1.5, whose score is -0.5.
\<close>

theorem score_outside_unit_interval:
  "fst (fst (query_collection far_row
     (JDict [(''collection_name'', JStr ''Docs''), (''query'', JStr ''hello'')]))) =
     Results [\<lparr>res_properties = [], score = - (1 / 2), res_distance = Some (3 / 2),
               res_uuid = ''u1''\<rparr>]
   \<and> \<not> (0 \<le> score \<lparr>res_properties = [], score = - (1 / 2), res_distance = Some (3 / 2),
                      res_uuid = ''u1''\<rparr>
        \<and> score \<lparr>res_properties = [], score = - (1 / 2), res_distance = Some (3 / 2),
                   res_uuid = ''u1''\<rparr> \<le> 1)"
proof -
  have "query_collection far_row
     (JDict [(''collection_name'', JStr ''Docs''), (''query'', JStr ''hello'')]) =
     ((Results [\<lparr>res_properties = [], score = - (1 / 2), res_distance = Some (3 / 2),
                 res_uuid = ''u1''\<rparr>], 200),
      [Collections_get (JStr ''Docs''), Near_text (JStr ''Docs'') (JStr ''hello'') 5 None])"
    by code_simp
  then show ?thesis by simp
qed

text \<open>
  C5, amended: the score of an emitted result lies in [0, 1] whenever the backend
  supplied no distance with the row, or a distance in [0, 1].
\<close>

theorem score_in_unit_interval_if:
  assumes "query_collection c data = ((Results rs, st), calls)"
  shows "list_all2
           (\<lambda>obj r. (case supplied_distance obj of None \<Rightarrow> True | Some d \<Rightarrow> 0 \<le> d \<and> d \<le> 1)
                      \<longrightarrow> 0 \<le> score r \<and> score r \<le> 1)
           (returned_rows c calls) rs"
  unfolding returned_rows_results [OF assms]
  by (rule list_all2_map_self) (auto simp: result_of_score split: option.splits)

theorem score_in_unit_interval_if_witness:
  "query_collection scored_rows
     (JDict [(''collection_name'', JStr ''Docs''), (''query'', JStr ''hello''),
             (''top_k'', JStr '' 3 '')]) =
   ((Results
       [\<lparr>res_properties = [(''title'', PStr ''a'')], score = 9 / 10,
          res_distance = Some (1 / 10), res_uuid = ''u1''\<rparr>,
        \<lparr>res_properties = [(''title'', PStr ''b'')], score = 3 / 5,
          res_distance = Some (2 / 5), res_uuid = ''u2''\<rparr>,
        \<lparr>res_properties = [], score = 1, res_distance = Some 0, res_uuid = ''u3''\<rparr>,
        \<lparr>res_properties = [], score = 0, res_distance = None, res_uuid = ''u4''\<rparr>,
        \<lparr>res_properties = [], score = 0, res_distance = None, res_uuid = ''u5''\<rparr>], 200),
    [Collections_get (JStr ''Docs''), Near_text (JStr ''Docs'') (JStr ''hello'') 3 None])
   \<and> list_all2
        (\<lambda>obj r. (case supplied_distance obj of None \<Rightarrow> True | Some d \<Rightarrow> 0 \<le> d \<and> d \<le> 1)
                   \<longrightarrow> 0 \<le> score r \<and> score r \<le> 1)
        (returned_rows scored_rows
           [Collections_get (JStr ''Docs''), Near_text (JStr ''Docs'') (JStr ''hello'') 3 None])
        [\<lparr>res_properties = [(''title'', PStr ''a'')], score = 9 / 10,
          res_distance = Some (1 / 10), res_uuid = ''u1''\<rparr>,
        \<lparr>res_properties = [(''title'', PStr ''b'')], score = 3 / 5,
          res_distance = Some (2 / 5), res_uuid = ''u2''\<rparr>,
        \<lparr>res_properties = [], score = 1, res_distance = Some 0, res_uuid = ''u3''\<rparr>,
        \<lparr>res_properties = [], score = 0, res_distance = None, res_uuid = ''u4''\<rparr>,
        \<lparr>res_properties = [], score = 0, res_distance = None, res_uuid = ''u5''\<rparr>]
   \<and> list_all (\<lambda>obj. case supplied_distance obj of None \<Rightarrow> True | Some d \<Rightarrow> 0 \<le> d \<and> d \<le> 1)
        (returned_rows scored_rows
           [Collections_get (JStr ''Docs''), Near_text (JStr ''Docs'') (JStr ''hello'') 3 None])"
proof -
  have run: "query_collection scored_rows
     (JDict [(''collection_name'', JStr ''Docs''), (''query'', JStr ''hello''),
             (''top_k'', JStr '' 3 '')]) =
   ((Results
       [\<lparr>res_properties = [(''title'', PStr ''a'')], score = 9 / 10,
          res_distance = Some (1 / 10), res_uuid = ''u1''\<rparr>,
        \<lparr>res_properties = [(''title'', PStr ''b'')], score = 3 / 5,
          res_distance = Some (2 / 5), res_uuid = ''u2''\<rparr>,
        \<lparr>res_properties = [], score = 1, res_distance = Some 0, res_uuid = ''u3''\<rparr>,
        \<lparr>res_properties = [], score = 0, res_distance = None, res_uuid = ''u4''\<rparr>,
        \<lparr>res_properties = [], score = 0, res_distance = None, res_uuid = ''u5''\<rparr>], 200),
    [Collections_get (JStr ''Docs''), Near_text (JStr ''Docs'') (JStr ''hello'') 3 None])"
    by code_simp
  have within: "list_all
        (\<lambda>obj. case supplied_distance obj of None \<Rightarrow> True | Some d \<Rightarrow> 0 \<le> d \<and> d \<le> 1)
        (returned_rows scored_rows
           [Collections_get (JStr ''Docs''), Near_text (JStr ''Docs'') (JStr ''hello'') 3 None])"
    by (simp add: returned_rows_def scored_rows_def supplied_distance_def)
  from run score_in_unit_interval_if [OF run] within show ?thesis
    by (intro conjI)
qed

text \<open>
  C9. In every emitted result, \<^verbatim>\<open>properties\<close> is the row's normalised properties
  without the entries whose key is an element of \<^verbatim>\<open>exclude_fields\<close>: these keys are
  removed at the top level, every other entry stays as it is, in order, with its
  value whole, whatever keys are nested in it.
\<close>

theorem exclude_fields_top_level_only:
  assumes "query_collection c data = ((Results rs, st), calls)"
  shows "list_all2
           (\<lambda>obj r. res_properties r =
                      filter (\<lambda>(k, x). JStr k \<notin> set (exclude_fields_of data))
                        (process_properties (properties obj)))
           (returned_rows c calls) rs"
  unfolding returned_rows_results [OF assms]
  by (rule list_all2_map_self) (rule result_of_properties)

theorem exclude_fields_top_level_only_witness:
  "query_collection one_row
     (JDict [(''collection_name'', JStr ''Docs''), (''query'', JStr ''hello''),
             (''exclude_fields'', JList [JStr ''title'', JStr ''absent''])]) =
   ((Results
       [\<lparr>res_properties =
            [(''meta'', PDict [(''title'', PStr ''inner''), (''year'', PInt 2020)]),
             (''year'', PInt 2021)],
          score = 3 / 4, res_distance = Some (1 / 4), res_uuid = ''u1''\<rparr>], 200),
    [Collections_get (JStr ''Docs''), Near_text (JStr ''Docs'') (JStr ''hello'') 5 None])
   \<and> list_all2
        (\<lambda>obj r. res_properties r =
                   filter (\<lambda>(k, x). JStr k \<notin> set [JStr ''title'', JStr ''absent''])
                     (process_properties (properties obj)))
        (returned_rows one_row
           [Collections_get (JStr ''Docs''), Near_text (JStr ''Docs'') (JStr ''hello'') 5 None])
        [\<lparr>res_properties =
            [(''meta'', PDict [(''title'', PStr ''inner''), (''year'', PInt 2020)]),
             (''year'', PInt 2021)],
          score = 3 / 4, res_distance = Some (1 / 4), res_uuid = ''u1''\<rparr>]"
proof -
  let ?data = "JDict [(''collection_name'', JStr ''Docs''), (''query'', JStr ''hello''),
             (''exclude_fields'', JList [JStr ''title'', JStr ''absent''])]"
  have run: "query_collection one_row ?data =
   ((Results
       [\<lparr>res_properties =
            [(''meta'', PDict [(''title'', PStr ''inner''), (''year'', PInt 2020)]),
             (''year'', PInt 2021)],
          score = 3 / 4, res_distance = Some (1 / 4), res_uuid = ''u1''\<rparr>], 200),
    [Collections_get (JStr ''Docs''), Near_text (JStr ''Docs'') (JStr ''hello'') 5 None])"
    by code_simp
  have ef: "exclude_fields_of ?data = [JStr ''title'', JStr ''absent'']"
    by code_simp
  from run exclude_fields_top_level_only [OF run] show ?thesis
    unfolding ef by (rule conjI)
qed

lemma falsy_required_field:
  assumes "kvs \<noteq> []"
    and "\<not> truthy (get kvs ''collection_name'') \<or> \<not> truthy (get kvs ''query'')"
  shows "query_collection c (JDict kvs) = ((Error Missing_required_fields, 400), [])"
  using assms by (auto simp: query_collection.simps Let_def)

text \<open>
  C10. A request whose body binds \<^verbatim>\<open>collection_name\<close> or \<^verbatim>\<open>query\<close> to the empty
  string is answered with the 400 response for missing required fields, and no call
  is made to the backend: the check is on truthiness, not on the presence of the key.
\<close>

theorem empty_required_field_rejected:
  assumes "map_of kvs ''collection_name'' = Some (JStr []) \<or>
           map_of kvs ''query'' = Some (JStr [])"
  shows "query_collection c (JDict kvs) = ((Error Missing_required_fields, 400), [])"
proof (rule falsy_required_field)
  from assms show "kvs \<noteq> []" by auto
  from assms show "\<not> truthy (get kvs ''collection_name'') \<or> \<not> truthy (get kvs ''query'')"
    by (auto simp: get_def get_default_def)
qed

theorem empty_required_field_rejected_witness:
  "query_collection scored_rows
     (JDict [(''collection_name'', JStr ''Docs''), (''query'', JStr [])]) =
   ((Error Missing_required_fields, 400), [])"
  using empty_required_field_rejected
    [of "[(''collection_name'', JStr ''Docs''), (''query'', JStr [])]" scored_rows]
  by simp

text \<open>
  C3 at two requests with a malformed condition: an entry of \<^verbatim>\<open>conditions\<close> that is a
  string, and a condition whose \<^verbatim>\<open>operator\<close> is null. Either is answered with 500,
  after the collection was resolved and before any search.
\<close>

theorem malformed_condition_fails_request:
  "query_collection one_row
     (JDict [(''collection_name'', JStr ''Docs''), (''query'', JStr ''hello''),
             (''filters'', JDict [(''conditions'', JList [JStr ''year > 2020''])])]) =
   ((Error (Internal_server_error AttributeError), 500), [Collections_get (JStr ''Docs'')])
   \<and> query_collection one_row
     (JDict [(''collection_name'', JStr ''Docs''), (''query'', JStr ''hello''),
             (''filters'', JDict [(''conditions'', JList
                [JDict [(''field'', JStr ''year''), (''operator'', JNull),
                        (''value'', JInt 2020)]])])]) =
   ((Error (Internal_server_error AttributeError), 500), [Collections_get (JStr ''Docs'')])"
  by code_simp

text \<open>
  C8 at a request whose \<^verbatim>\<open>exclude_fields\<close> is a list of numbers: it is answered with
  200 after both calls to the backend, and nothing is excluded.
\<close>

theorem exclude_fields_of_numbers_accepted:
  "query_collection one_row
     (JDict [(''collection_name'', JStr ''Docs''), (''query'', JStr ''hello''),
             (''exclude_fields'', JList [JInt 1, JInt 2])]) =
   ((Results
       [\<lparr>res_properties =
            [(''title'', PStr ''a''),
             (''meta'', PDict [(''title'', PStr ''inner''), (''year'', PInt 2020)]),
             (''year'', PInt 2021)],
          score = 3 / 4, res_distance = Some (1 / 4), res_uuid = ''u1''\<rparr>], 200),
    [Collections_get (JStr ''Docs''), Near_text (JStr ''Docs'') (JStr ''hello'') 5 None])"
  by code_simp

end
